theory Spec2Isabelle
  imports Complex_Main
begin

section \<open>Geometric multi-landmark pose solver (PhotonPoseEstimator.cpp)\<close>

text \<open>
  The solver is embedded function by function.  C++ \<^verbatim>\<open>double\<close> and \<^verbatim>\<open>float\<close> values are
  read as real numbers; the only arithmetic the functions below perform themselves is
  negation, addition and one 3x3 matrix-vector product.  What the code calls in OpenCV
  and wpimath (\<^verbatim>\<open>cv::Rodrigues\<close>, \<^verbatim>\<open>cv::solvePnP\<close>, the \<^verbatim>\<open>frc::Rotation3d\<close> constructor,
  \<^verbatim>\<open>Translation3d::RotateBy\<close>, the narrowing of a double to a float) is not code of this
  repository: these primitives are parameters of the embedding, collected in the record
  \<open>Primitives\<close>, and every general theorem holds for all of them.
\<close>

subsection \<open>Data\<close>

text \<open>A 3x1 \<^verbatim>\<open>cv::Mat\<close> of doubles, rows 0, 1, 2; a 3x3 one as its three rows.\<close>

type_synonym Mat31 = "real \<times> real \<times> real"
type_synonym Mat33 = "Mat31 \<times> Mat31 \<times> Mat31"

text \<open>\<^verbatim>\<open>cv::Point3d\<close> / \<^verbatim>\<open>cv::Point3f\<close> and \<^verbatim>\<open>cv::Point2f\<close>.\<close>

record Point3d =
  p3_x :: real
  p3_y :: real
  p3_z :: real

record Point2f =
  p2_x :: real
  p2_y :: real

text \<open>\<^verbatim>\<open>frc::Translation3d\<close> with its accessors \<^verbatim>\<open>X()\<close>, \<^verbatim>\<open>Y()\<close>, \<^verbatim>\<open>Z()\<close> (metres).\<close>

record Translation3d =
  X :: real
  Y :: real
  Z :: real

text \<open>\<^verbatim>\<open>frc::Pose3d\<close>: a translation and a rotation of the library's type \<open>'rot\<close>.\<close>

record 'rot Pose3d =
  Translation :: Translation3d
  Rotation :: 'rot

text \<open>
  A detection: \<^verbatim>\<open>TagDetection.h\<close> is not among the sources; the solver reads
  \<^verbatim>\<open>GetFiducialId()\<close> and \<^verbatim>\<open>corners[i].x\<close>, \<^verbatim>\<open>corners[i].y\<close> for \<open>i = 0..3\<close>.
\<close>

record TargetCorner =
  cx :: real
  cy :: real

record TagDetection =
  fiducialId :: int
  corners :: "TargetCorner list"

definition GetFiducialId :: "TagDetection \<Rightarrow> int" where
  "GetFiducialId target = fiducialId target"

text \<open>\<^verbatim>\<open>frc::AprilTagFieldLayout\<close>, read only through \<^verbatim>\<open>GetTagPose\<close>.\<close>

type_synonym 'rot AprilTagFieldLayout = "int \<rightharpoonup> 'rot Pose3d"

definition GetTagPose :: "'rot AprilTagFieldLayout \<Rightarrow> int \<Rightarrow> 'rot Pose3d option" where
  "GetTagPose aprilTags tagID = aprilTags tagID"

text \<open>
  The library primitives.  \<open>solvePnP\<close> returns the flag \<^verbatim>\<open>cv::solvePnP\<close> returns together
  with the contents of its two output matrices \<open>rvec\<close> and \<open>tvec\<close> after the call
  (when the flag is false these are whatever the freshly allocated matrices held).
\<close>

record ('rot, 'cm, 'dc) Primitives =
  Rodrigues :: "Mat31 \<Rightarrow> Mat33"
  solvePnP :: "Point3d list \<Rightarrow> Point2f list \<Rightarrow> 'cm \<Rightarrow> 'dc \<Rightarrow> bool \<times> Mat31 \<times> Mat31"
  Rotation3d :: "Mat31 \<Rightarrow> 'rot"
  RotateBy :: "Translation3d \<Rightarrow> 'rot \<Rightarrow> Translation3d"
  toFloat :: "real \<Rightarrow> real"

subsection \<open>Small matrix operations written out\<close>

definition transpose33 :: "Mat33 \<Rightarrow> Mat33" where
  "transpose33 R = (case R of ((a, b, c), (d, e, f), (g, h, i)) \<Rightarrow>
     ((a, d, g), (b, e, h), (c, f, i)))"

definition neg33 :: "Mat33 \<Rightarrow> Mat33" where
  "neg33 R = (case R of ((a, b, c), (d, e, f), (g, h, i)) \<Rightarrow>
     ((- a, - b, - c), (- d, - e, - f), (- g, - h, - i)))"

definition mul33 :: "Mat33 \<Rightarrow> Mat31 \<Rightarrow> Mat31" where
  "mul33 R v = (case R of ((a, b, c), (d, e, f), (g, h, i)) \<Rightarrow> (case v of (p, q, r) \<Rightarrow>
     (a * p + b * q + c * r, d * p + e * q + f * r, g * p + h * q + i * r)))"

definition plusT :: "Translation3d \<Rightarrow> Translation3d \<Rightarrow> Translation3d" where
  "plusT s t = \<lparr>X = X s + X t, Y = Y s + Y t, Z = Z s + Z t\<rparr>"

subsection \<open>The \<^verbatim>\<open>detail\<close> helpers\<close>

text \<open>\<^verbatim>\<open>detail::ToPoint3d\<close>: \<open>(-Y, -Z, +X)\<close>.\<close>

definition ToPoint3d :: "Translation3d \<Rightarrow> Point3d" where
  "ToPoint3d translation =
     \<lparr>p3_x = - Y translation, p3_y = - Z translation, p3_z = X translation\<rparr>"

text \<open>\<^verbatim>\<open>detail::TagCornerToObjectPoint\<close>.\<close>

definition TagCornerToObjectPoint ::
  "('rot, 'cm, 'dc) Primitives \<Rightarrow> real \<Rightarrow> real \<Rightarrow> 'rot Pose3d \<Rightarrow> Point3d" where
  "TagCornerToObjectPoint cv cornerX cornerY tagPose =
     (let cornerTrans =
        plusT (Translation tagPose)
              (RotateBy cv \<lparr>X = 0, Y = cornerX, Z = cornerY\<rparr> (Rotation tagPose))
      in ToPoint3d cornerTrans)"

text \<open>The literal \<^verbatim>\<open>3_in\<close> as a \<^verbatim>\<open>units::meter_t\<close>: three inches of 0.0254 m.\<close>

definition three_in :: real where
  "three_in = 3 * (254 / 10000)"

text \<open>\<^verbatim>\<open>detail::CalcTagCorners\<close>: the four corners, or \<^verbatim>\<open>std::nullopt\<close> for an unknown id.\<close>

definition CalcTagCorners ::
  "('rot, 'cm, 'dc) Primitives \<Rightarrow> int \<Rightarrow> 'rot AprilTagFieldLayout \<Rightarrow> Point3d list option" where
  "CalcTagCorners cv tagID aprilTags =
     (case GetTagPose aprilTags tagID of
        Some tagPose \<Rightarrow>
          Some [TagCornerToObjectPoint cv (- three_in) (- three_in) tagPose,
                TagCornerToObjectPoint cv three_in (- three_in) tagPose,
                TagCornerToObjectPoint cv three_in three_in tagPose,
                TagCornerToObjectPoint cv (- three_in) three_in tagPose]
      | None \<Rightarrow> None)"

text \<open>
  \<^verbatim>\<open>detail::ToPose3d\<close>, in the order of the source: \<open>R\<close> from \<open>rvec\<close>, its transpose, the
  translation of the inverse \<open>tvecI = -R * tvec\<close>, then the two component remaps.  The
  remap of \<open>tvecI\<close> into \<open>tv\<close> (lines \<^verbatim>\<open>tv[0] = +tvecI(2)\<close>, \<^verbatim>\<open>tv[1] = -tvecI(0)\<close>,
  \<^verbatim>\<open>tv[2] = -tvecI(1)\<close>) and the remap of \<open>rvec\<close> into \<open>rv\<close> (\<^verbatim>\<open>rv[0] = +rvec(2)\<close>,
  \<^verbatim>\<open>rv[1] = -rvec(0)\<close>, \<^verbatim>\<open>rv[2] = +rvec(1)\<close>) are named so that they can be spoken about.
\<close>

definition remapTranslation :: "Mat31 \<Rightarrow> Translation3d" where
  "remapTranslation tvecI = (case tvecI of (i0, i1, i2) \<Rightarrow> \<lparr>X = i2, Y = - i0, Z = - i1\<rparr>)"

definition remapRotation :: "Mat31 \<Rightarrow> Mat31" where
  "remapRotation rvec = (case rvec of (r0, r1, r2) \<Rightarrow> (r2, - r0, r1))"

definition ToPose3d :: "('rot, 'cm, 'dc) Primitives \<Rightarrow> Mat31 \<Rightarrow> Mat31 \<Rightarrow> 'rot Pose3d" where
  "ToPose3d cv tvec rvec =
     (let R = Rodrigues cv rvec;
          R = transpose33 R;
          tvecI = mul33 (neg33 R) tvec
      in \<lparr>Translation = remapTranslation tvecI,
          Rotation = Rotation3d cv (remapRotation rvec)\<rparr>)"

subsection \<open>\<^verbatim>\<open>MultiTagOnRioStrategy\<close>\<close>

text \<open>
  \<^verbatim>\<open>objectPoints.emplace_back((*tagCorners)[cornerIdx])\<close> builds a \<^verbatim>\<open>cv::Point3f\<close> from a
  \<^verbatim>\<open>cv::Point3d\<close>, and \<^verbatim>\<open>imagePoints.emplace_back(x, y)\<close> a \<^verbatim>\<open>cv::Point2f\<close> from two doubles.
\<close>

definition toPoint3f :: "('rot, 'cm, 'dc) Primitives \<Rightarrow> Point3d \<Rightarrow> Point3d" where
  "toPoint3f cv p =
     \<lparr>p3_x = toFloat cv (p3_x p), p3_y = toFloat cv (p3_y p), p3_z = toFloat cv (p3_z p)\<rparr>"

definition toPoint2f :: "('rot, 'cm, 'dc) Primitives \<Rightarrow> TargetCorner \<Rightarrow> Point2f" where
  "toPoint2f cv c = \<lparr>p2_x = toFloat cv (cx c), p2_y = toFloat cv (cy c)\<rparr>"

text \<open>
  The body of the inner loop over \<open>cornerIdx\<close>: one element appended to each of the two
  vectors.  The source indexes \<open>target.corners\<close> unchecked; the theorems that speak about
  the corner values assume the four corners the data model gives every detection.
\<close>

definition addCorner ::
  "('rot, 'cm, 'dc) Primitives \<Rightarrow> Point3d list \<Rightarrow> TargetCorner list \<Rightarrow> nat \<Rightarrow>
   Point3d list \<times> Point2f list \<Rightarrow> Point3d list \<times> Point2f list" where
  "addCorner cv tagCorners targetCorners cornerIdx acc =
     (case acc of (objectPoints, imagePoints) \<Rightarrow>
        (objectPoints @ [toPoint3f cv (tagCorners ! cornerIdx)],
         imagePoints @ [toPoint2f cv (targetCorners ! cornerIdx)]))"

text \<open>The body of the outer loop over \<open>targets\<close>.\<close>

definition addTarget ::
  "('rot, 'cm, 'dc) Primitives \<Rightarrow> 'rot AprilTagFieldLayout \<Rightarrow> TagDetection \<Rightarrow>
   Point3d list \<times> Point2f list \<Rightarrow> Point3d list \<times> Point2f list" where
  "addTarget cv aprilTags target acc =
     (let id = GetFiducialId target in
      case CalcTagCorners cv id aprilTags of
        Some tagCorners \<Rightarrow>
          (let targetCorners = corners target in
           fold (addCorner cv tagCorners targetCorners) [0..<4] acc)
      | None \<Rightarrow> acc)"

definition collectCorners ::
  "('rot, 'cm, 'dc) Primitives \<Rightarrow> TagDetection list \<Rightarrow> 'rot AprilTagFieldLayout \<Rightarrow>
   Point3d list \<times> Point2f list" where
  "collectCorners cv targets aprilTags = fold (addTarget cv aprilTags) targets ([], [])"

text \<open>
  The strategy itself; \<^verbatim>\<open>std::nullopt\<close> is \<open>None\<close>.  The flag returned by \<^verbatim>\<open>cv::solvePnP\<close>
  is discarded by the source, and so it is here.
\<close>

definition MultiTagOnRioStrategy ::
  "('rot, 'cm, 'dc) Primitives \<Rightarrow> TagDetection list \<Rightarrow> 'rot AprilTagFieldLayout \<Rightarrow>
   'cm option \<Rightarrow> 'dc option \<Rightarrow> 'rot Pose3d option" where
  "MultiTagOnRioStrategy cv targets aprilTags camMat distCoeffs =
     (if camMat = None \<or> distCoeffs = None then None
      else
        (case collectCorners cv targets aprilTags of (objectPoints, imagePoints) \<Rightarrow>
           if length imagePoints < 4 then None
           else
             (case solvePnP cv objectPoints imagePoints (the camMat) (the distCoeffs) of
                (ok, rvec, tvec) \<Rightarrow>
                  (let pose = ToPose3d cv tvec rvec in Some pose))))"

subsection \<open>The conversion as the specification words it\<close>


text \<open>
  What one detection contributes, stated independently of the loops: nothing for an
  unknown id, otherwise the layout's four corners paired with the detection's corners.
\<close>

definition tagCorrespondences ::
  "('rot, 'cm, 'dc) Primitives \<Rightarrow> 'rot AprilTagFieldLayout \<Rightarrow> TagDetection \<Rightarrow>
   (Point3d \<times> Point2f) list" where
  "tagCorrespondences cv aprilTags target =
     (case CalcTagCorners cv (GetFiducialId target) aprilTags of
        None \<Rightarrow> []
      | Some tagCorners \<Rightarrow>
          zip (map (toPoint3f cv) tagCorners) (map (toPoint2f cv) (corners target)))"

subsection \<open>Concrete primitives and inputs for the worked examples\<close>

text \<open>
  The examples pass the zero rotation vector only.  There \<^verbatim>\<open>cv::Rodrigues\<close> yields the
  identity matrix and rotating by the rotation leaves a translation as it is; a rotation
  is kept as the vector it was built from, and narrowing is exact on the numbers used.
  \<open>cvFailed\<close> has a perspective solve that reports failure and leaves zeros in both output
  matrices; \<open>cvSolved\<close> one that reports success with \<open>tvec = (1, 2, 3)\<close>.
\<close>

definition identity33 :: Mat33 where
  "identity33 = ((1, 0, 0), (0, 1, 0), (0, 0, 1))"

definition cvFailed :: "(Mat31, unit, unit) Primitives" where
  "cvFailed =
     \<lparr>Rodrigues = (\<lambda>rvec. identity33),
      solvePnP = (\<lambda>objectPoints imagePoints cm dc. (False, (0, 0, 0), (0, 0, 0))),
      Rotation3d = (\<lambda>rv. rv),
      RotateBy = (\<lambda>t r. t),
      toFloat = (\<lambda>x. x)\<rparr>"

definition cvSolved :: "(Mat31, unit, unit) Primitives" where
  "cvSolved =
     \<lparr>Rodrigues = (\<lambda>rvec. identity33),
      solvePnP = (\<lambda>objectPoints imagePoints cm dc. (True, (0, 0, 0), (1, 2, 3))),
      Rotation3d = (\<lambda>rv. rv),
      RotateBy = (\<lambda>t r. t),
      toFloat = (\<lambda>x. x)\<rparr>"

text \<open>A layout that knows tag 1 only, at the origin and unrotated; detections of tags 1, 7 and 2.\<close>

definition layout1 :: "Mat31 AprilTagFieldLayout" where
  "layout1 = [1 \<mapsto> \<lparr>Translation = \<lparr>X = 0, Y = 0, Z = 0\<rparr>, Rotation = (0, 0, 0)\<rparr>]"

definition fourCorners :: "TargetCorner list" where
  "fourCorners = [\<lparr>cx = 10, cy = 10\<rparr>, \<lparr>cx = 20, cy = 10\<rparr>, \<lparr>cx = 20, cy = 20\<rparr>, \<lparr>cx = 10, cy = 20\<rparr>]"

definition seenTag1 :: TagDetection where
  "seenTag1 = \<lparr>fiducialId = 1, corners = fourCorners\<rparr>"

definition seenTag7 :: TagDetection where
  "seenTag7 = \<lparr>fiducialId = 7, corners = fourCorners\<rparr>"

definition seenTag2 :: TagDetection where
  "seenTag2 = \<lparr>fiducialId = 2, corners = fourCorners\<rparr>"

text \<open>A layout that knows tags 1 and 2, one metre apart.\<close>

definition layout12 :: "Mat31 AprilTagFieldLayout" where
  "layout12 = [1 \<mapsto> \<lparr>Translation = \<lparr>X = 0, Y = 0, Z = 0\<rparr>, Rotation = (0, 0, 0)\<rparr>,
               2 \<mapsto> \<lparr>Translation = \<lparr>X = 0, Y = 1, Z = 0\<rparr>, Rotation = (0, 0, 0)\<rparr>]"

section \<open>The mapper (sfm\_mapper.h)\<close>

text \<open>
  \<^verbatim>\<open>sfm_mapper.h\<close> declares the mapper's data and the signatures of its operations; the
  bodies of \<^verbatim>\<open>GetNearestStateToKeyframe\<close>, \<^verbatim>\<open>AddOdometryFactors\<close>, \<^verbatim>\<open>AddKeyframes\<close> and
  \<^verbatim>\<open>Optimize\<close> are not among the sources.  The records below follow the header; the
  operations are modelled from the specification, each marked as such.  Timestamps
  (\<^verbatim>\<open>int64_t\<close> in the header) are integers.
\<close>

subsection \<open>Data declared in the header\<close>

text \<open>
  A \<^verbatim>\<open>gtsam::Key\<close> names a variable of the estimator.  The specification has two kinds, a
  motion-state node and a landmark node, the latter derived from the landmark id.
\<close>

datatype VariableKey = StateKey nat | LandmarkKey int

record 'pose OdomPoseDelta =
  odom_time :: int
  poseDelta :: 'pose

record KeyframeData =
  keyframe_time :: int
  cameraIdx :: nat
  observation :: "TagDetection list"

record 'pose OptimizerState =
  odometryMeasurements :: "'pose OdomPoseDelta list"
  keyframes :: "KeyframeData list"

text \<open>
  \<^verbatim>\<open>TimeKeyMap = std::map<int64_t, gtsam::Key>\<close>: its entries, in the order they were
  inserted (the specification has the map append-only, by increasing timestamp).
\<close>

type_synonym TimeKeyMap = "(int \<times> VariableKey) list"

datatype error = NoAssociableState | SolverDivergence

subsection \<open>Time synchronizer\<close>

text \<open>
  Modelled from the spec: the comparison inside the missing body of
  \<^verbatim>\<open>SfmMapper::GetNearestStateToKeyframe\<close>.  Section 4.2 asks for "minimum absolute
  difference to the keyframe timestamp; ties are broken toward the earlier timestamp":
  \<open>closer t e best\<close> says that entry \<open>e\<close> is to be preferred to \<open>best\<close> for the query \<open>t\<close>.
\<close>

definition closer :: "int \<Rightarrow> int \<times> VariableKey \<Rightarrow> int \<times> VariableKey \<Rightarrow> bool" where
  "closer t e best =
     (\<bar>fst e - t\<bar> < \<bar>fst best - t\<bar> \<or> (\<bar>fst e - t\<bar> = \<bar>fst best - t\<bar> \<and> fst e < fst best))"

text \<open>
  Modelled from the spec: the scan of the missing body of
  \<^verbatim>\<open>SfmMapper::GetNearestStateToKeyframe\<close> over the entries of the map, keeping the
  preferred entry.
\<close>

fun nearestEntry :: "int \<Rightarrow> int \<times> VariableKey \<Rightarrow> TimeKeyMap \<Rightarrow> int \<times> VariableKey" where
  "nearestEntry t best [] = best"
| "nearestEntry t best (e # es) = nearestEntry t (if closer t e best then e else best) es"

text \<open>
  Modelled from the spec: the body of \<^verbatim>\<open>SfmMapper::GetNearestStateToKeyframe\<close> is missing
  (the header declares it as returning a \<^verbatim>\<open>gtsam::Key\<close>).  Section 4.2: it "returns the
  motion-state key whose timestamp has minimum absolute difference to the keyframe
  timestamp" and "fails with NoAssociableState if the map is empty"; the failure is a
  value here.
\<close>

definition GetNearestStateToKeyframe :: "TimeKeyMap \<Rightarrow> int \<Rightarrow> error + VariableKey" where
  "GetNearestStateToKeyframe timeMap t =
     (case timeMap of
        [] \<Rightarrow> Inl NoAssociableState
      | e # es \<Rightarrow> Inr (snd (nearestEntry t e es)))"

subsection \<open>Factor graph builder and incremental estimator\<close>

text \<open>
  The three factor kinds of the specification (section 9): each carries its measurement
  and the keys it touches.
\<close>

datatype 'pose Factor =
    OdometryFactor VariableKey VariableKey 'pose
  | ProjectionFactor VariableKey nat VariableKey TargetCorner
  | AnchorPrior VariableKey 'pose

text \<open>
  What the mapper is constructed with and what it consumes (section 6): the prior
  layout, the fixed tags, pose composition, back-projection of a detection from a pose,
  which landmark ids count as known, and the incremental nonlinear solver.  The solver
  is given the factors it holds, the new factors, the new initial values and the current
  estimate; it answers with a best estimate per key, or \<open>None\<close> for an explicit failure.
\<close>

record 'pose Collaborators =
  layoutGuess :: "int \<rightharpoonup> 'pose"
  fixedTags :: "int list"
  composePose :: "'pose \<Rightarrow> 'pose \<Rightarrow> 'pose"
  backProject :: "'pose \<Rightarrow> nat \<Rightarrow> TagDetection \<Rightarrow> 'pose"
  knownId :: "int \<Rightarrow> bool"
  solver :: "'pose Factor list \<Rightarrow> 'pose Factor list \<Rightarrow> (VariableKey \<rightharpoonup> 'pose) \<Rightarrow>
             (VariableKey \<rightharpoonup> 'pose) \<Rightarrow> (VariableKey \<rightharpoonup> 'pose) option"

text \<open>
  The mutable members of \<^verbatim>\<open>class SfmMapper\<close>: \<open>isam\<close> is read as the factors submitted
  so far, \<open>latestRobotState\<close> as the index of the latest motion-state key.  No
  motion-state node exists as long as \<open>timeToKeyMap\<close> is empty.
\<close>

record 'pose SfmMapper =
  currentEstimate :: "VariableKey \<rightharpoonup> 'pose"
  isam :: "'pose Factor list"
  wTb_latest :: 'pose
  latestRobotState :: nat
  timeToKeyMap :: TimeKeyMap
  gotAkeyframe :: bool

text \<open>
  Modelled from the spec: the loop body of the missing \<^verbatim>\<open>SfmMapper::AddOdometryFactors\<close>.
  Section 4.3, per odometry delta: "create a new motion-state key; add a relative-pose
  constraint between the previous latest state and the new one using the delta as
  measurement; seed the new node's initial value by composing the prior latest estimate
  with the delta; advance the latest-state pointer and the time map".  The first delta
  ever has no previous state to constrain against and establishes state 0.
\<close>

definition addOdometryDelta ::
  "'pose Collaborators \<Rightarrow> 'pose OdomPoseDelta \<Rightarrow>
   'pose Factor list \<times> (VariableKey \<rightharpoonup> 'pose) \<times> 'pose SfmMapper \<Rightarrow>
   'pose Factor list \<times> (VariableKey \<rightharpoonup> 'pose) \<times> 'pose SfmMapper" where
  "addOdometryDelta env delta acc =
     (case acc of (graph, initial, m) \<Rightarrow>
        (let first = (timeToKeyMap m = []);
             new = (if first then 0 else Suc (latestRobotState m));
             pose = composePose env (wTb_latest m) (poseDelta delta);
             constraint =
               (if first then []
                else [OdometryFactor (StateKey (latestRobotState m)) (StateKey new)
                        (poseDelta delta)])
         in (graph @ constraint,
             initial(StateKey new \<mapsto> pose),
             m\<lparr>wTb_latest := pose,
               latestRobotState := new,
               timeToKeyMap := timeToKeyMap m @ [(odom_time delta, StateKey new)]\<rparr>)))"

text \<open>
  Modelled from the spec: the body of \<^verbatim>\<open>SfmMapper::AddOdometryFactors\<close> is missing.  The
  deltas are applied "strictly in input order, each seeding off the previous" (section 5).
\<close>

definition AddOdometryFactors ::
  "'pose Collaborators \<Rightarrow> 'pose OptimizerState \<Rightarrow>
   'pose Factor list \<times> (VariableKey \<rightharpoonup> 'pose) \<times> 'pose SfmMapper \<Rightarrow>
   'pose Factor list \<times> (VariableKey \<rightharpoonup> 'pose) \<times> 'pose SfmMapper" where
  "AddOdometryFactors env newThings acc =
     fold (addOdometryDelta env) (odometryMeasurements newThings) acc"

text \<open>
  Modelled from the spec: what the missing \<^verbatim>\<open>SfmMapper::AddKeyframes\<close> does for one
  detection.  Section 4.3: "for each contained detection whose id is known, add one
  projection constraint per corner linking the resolved motion-state, that camera and
  the landmark's key"; "a landmark node lacking an initial value is seeded from the
  prior layout position, or, if absent, by back-projecting the current best motion-state
  estimate through the observed corner"; "landmarks configured as fixed anchors are
  added once with a strong pinning prior and excluded from all future re-seeding".
\<close>

definition addDetection ::
  "'pose Collaborators \<Rightarrow> KeyframeData \<Rightarrow> VariableKey \<Rightarrow> TagDetection \<Rightarrow>
   'pose Factor list \<times> (VariableKey \<rightharpoonup> 'pose) \<times> 'pose SfmMapper \<Rightarrow>
   'pose Factor list \<times> (VariableKey \<rightharpoonup> 'pose) \<times> 'pose SfmMapper" where
  "addDetection env kf stateKey det acc =
     (case acc of (graph, initial, m) \<Rightarrow>
        if knownId env (fiducialId det) then
          (let landmark = LandmarkKey (fiducialId det);
               unseeded = (currentEstimate m landmark = None \<and> initial landmark = None);
               seed = (case layoutGuess env (fiducialId det) of
                         Some p \<Rightarrow> p
                       | None \<Rightarrow> backProject env (wTb_latest m) (cameraIdx kf) det);
               pin = (if unseeded \<and> fiducialId det \<in> set (fixedTags env)
                      then [AnchorPrior landmark seed] else []);
               projections = map (ProjectionFactor stateKey (cameraIdx kf) landmark) (corners det)
           in (graph @ pin @ projections,
               (if unseeded then initial(landmark \<mapsto> seed) else initial),
               m))
        else acc)"

text \<open>
  Modelled from the spec: what the missing \<^verbatim>\<open>SfmMapper::AddKeyframes\<close> does for one
  keyframe.  Section 4.3: "resolve its motion-state" with the time synchronizer, then
  handle each detection; a keyframe that cannot be associated adds nothing in this
  round.  Section 4.5: the mapper records that a keyframe has been accepted.
\<close>

definition addKeyframe ::
  "'pose Collaborators \<Rightarrow> KeyframeData \<Rightarrow>
   'pose Factor list \<times> (VariableKey \<rightharpoonup> 'pose) \<times> 'pose SfmMapper \<Rightarrow>
   'pose Factor list \<times> (VariableKey \<rightharpoonup> 'pose) \<times> 'pose SfmMapper" where
  "addKeyframe env kf acc =
     (case acc of (graph, initial, m) \<Rightarrow>
        (case GetNearestStateToKeyframe (timeToKeyMap m) (keyframe_time kf) of
           Inl e \<Rightarrow> acc
         | Inr stateKey \<Rightarrow>
             (case fold (addDetection env kf stateKey) (observation kf) acc of
                (graph', initial', m') \<Rightarrow> (graph', initial', m'\<lparr>gotAkeyframe := True\<rparr>))))"

text \<open>
  Modelled from the spec: the body of \<^verbatim>\<open>SfmMapper::AddKeyframes\<close> is missing.  The
  keyframes of the batch are handled in input order.
\<close>

definition AddKeyframes ::
  "'pose Collaborators \<Rightarrow> 'pose OptimizerState \<Rightarrow>
   'pose Factor list \<times> (VariableKey \<rightharpoonup> 'pose) \<times> 'pose SfmMapper \<Rightarrow>
   'pose Factor list \<times> (VariableKey \<rightharpoonup> 'pose) \<times> 'pose SfmMapper" where
  "AddKeyframes env newThings acc = fold (addKeyframe env) (keyframes newThings) acc"

text \<open>
  Modelled from the spec: the body of \<^verbatim>\<open>SfmMapper::Optimize\<close> is missing.  Section 4.4:
  (1) build the factors of the batch, odometry first, then keyframes; (2) "if no
  motion-state node exists and the batch adds none, return the unchanged state";
  (3) submit the new factors and initial values to the solver, which updates the best
  estimate; (4) "on solver failure, surface it to the caller without mutating retained
  state"; (5) return the updated estimate.  A value the solver does not mention keeps
  what it had ("values are never deleted").  The result is the estimate or the failure,
  together with the mapper after the call.
\<close>

definition Optimize ::
  "'pose Collaborators \<Rightarrow> 'pose SfmMapper \<Rightarrow> 'pose OptimizerState \<Rightarrow>
   (error + (VariableKey \<rightharpoonup> 'pose)) \<times> 'pose SfmMapper" where
  "Optimize env m newThings =
     (case AddKeyframes env newThings (AddOdometryFactors env newThings ([], Map.empty, m)) of
        (graph, initial, m') \<Rightarrow>
          if timeToKeyMap m' = [] then (Inr (currentEstimate m), m)
          else
            (case solver env (isam m) graph initial (currentEstimate m) of
               None \<Rightarrow> (Inl SolverDivergence, m)
             | Some best \<Rightarrow>
                 (let estimate = (currentEstimate m ++ initial) ++ best
                  in (Inr estimate,
                      m'\<lparr>currentEstimate := estimate,
                         isam := isam m @ graph,
                         wTb_latest :=
                           (case estimate (StateKey (latestRobotState m')) of
                              Some p \<Rightarrow> p
                            | None \<Rightarrow> wTb_latest m')\<rparr>))))"

text \<open>
  Modelled from the spec: a session, which no function of the header stands for.  One
  \<open>Optimize\<close> call per batch, each on the mapper the previous one left (section 4.5: the
  orchestrator owns its state across calls).
\<close>

definition OptimizeAll ::
  "'pose Collaborators \<Rightarrow> 'pose SfmMapper \<Rightarrow> 'pose OptimizerState list \<Rightarrow> 'pose SfmMapper" where
  "OptimizeAll env m batches = fold (\<lambda>newThings m. snd (Optimize env m newThings)) batches m"

text \<open>
  A one-dimensional instance for the worked example: poses are integers composed by
  addition, tag 1 is a fixed anchor at 5, and the solver accepts the initial values.
\<close>

definition lineEnv :: "int Collaborators" where
  "lineEnv =
     \<lparr>layoutGuess = [1 \<mapsto> 5],
      fixedTags = [1],
      composePose = (\<lambda>p d. p + d),
      backProject = (\<lambda>p cam det. p),
      knownId = (\<lambda>i. True),
      solver = (\<lambda>held graph initial current. Some initial)\<rparr>"

definition emptyMapper :: "int SfmMapper" where
  "emptyMapper =
     \<lparr>currentEstimate = Map.empty, isam = [], wTb_latest = 0, latestRobotState = 0,
      timeToKeyMap = [], gotAkeyframe = False\<rparr>"

definition firstBatch :: "int OptimizerState" where
  "firstBatch =
     \<lparr>odometryMeasurements = [\<lparr>odom_time = 0, poseDelta = 0\<rparr>],
      keyframes = [\<lparr>keyframe_time = 0, cameraIdx = 0, observation = [seenTag1, seenTag7]\<rparr>]\<rparr>"

text \<open>
  Two relations used in the proofs.  \<open>builtFrom m acc\<close>: the accumulator of the factor
  builder holds a mapper that differs from \<open>m\<close> only by entries appended to the time map
  and by its latest-state bookkeeping.  \<open>grownFrom m m'\<close>: mapper \<open>m'\<close> has every key of
  \<open>m\<close>, and its factors and time map extend those of \<open>m\<close>.
\<close>

definition builtFrom ::
  "'pose SfmMapper \<Rightarrow> 'pose Factor list \<times> (VariableKey \<rightharpoonup> 'pose) \<times> 'pose SfmMapper \<Rightarrow> bool" where
  "builtFrom m acc =
     (case acc of (graph, initial, m') \<Rightarrow>
        currentEstimate m' = currentEstimate m \<and> isam m' = isam m \<and>
        (\<exists>new. timeToKeyMap m' = timeToKeyMap m @ new))"

definition grownFrom :: "'pose SfmMapper \<Rightarrow> 'pose SfmMapper \<Rightarrow> bool" where
  "grownFrom m m' =
     (dom (currentEstimate m) \<subseteq> dom (currentEstimate m') \<and>
      (\<exists>new. isam m' = isam m @ new) \<and>
      (\<exists>new. timeToKeyMap m' = timeToKeyMap m @ new))"

section \<open>Properties of the geometric solver\<close>

subsection \<open>Unfolding the loops\<close>

lemma upt_0_4: "[0..<4] = [0, 1, 2, 3]"
  by code_simp

lemmas solver_defs =
  MultiTagOnRioStrategy_def collectCorners_def addTarget_def addCorner_def
  CalcTagCorners_def GetTagPose_def GetFiducialId_def TagCornerToObjectPoint_def
  plusT_def ToPoint3d_def toPoint3f_def toPoint2f_def three_in_def upt_0_4 Let_def

lemmas pose_defs =
  ToPose3d_def remapTranslation_def remapRotation_def identity33_def transpose33_def
  neg33_def mul33_def

lemmas example_defs =
  layout1_def seenTag1_def seenTag7_def fourCorners_def

lemma fold_addCorner:
  "fold (addCorner cv tagCorners targetCorners) [0..<4] (obj, img) =
     (obj @ map (\<lambda>i. toPoint3f cv (tagCorners ! i)) [0..<4],
      img @ map (\<lambda>i. toPoint2f cv (targetCorners ! i)) [0..<4])"
  by (simp add: upt_0_4 addCorner_def)

lemma map_nth_0_4:
  assumes "length xs = 4"
  shows "map (\<lambda>i. f (xs ! i)) [0..<4] = map f xs"
proof -
  have "map f (map ((!) xs) [0..<length xs]) = map f xs"
    by (simp only: map_nth)
  then show ?thesis
    using assms by (simp add: comp_def)
qed

lemma length_CalcTagCorners:
  "CalcTagCorners cv tagID aprilTags = Some tagCorners \<Longrightarrow> length tagCorners = 4"
  by (auto simp: CalcTagCorners_def split: option.splits)

lemma addTarget_tagCorrespondences:
  assumes "length (corners target) = 4"
  shows "addTarget cv aprilTags target (obj, img) =
           (obj @ map fst (tagCorrespondences cv aprilTags target),
            img @ map snd (tagCorrespondences cv aprilTags target))"
proof (cases "CalcTagCorners cv (GetFiducialId target) aprilTags")
  case None
  then show ?thesis
    by (simp add: addTarget_def tagCorrespondences_def)
next
  case (Some tagCorners)
  then have len: "length tagCorners = 4"
    by (rule length_CalcTagCorners)
  show ?thesis
    using Some len assms
    by (simp add: addTarget_def tagCorrespondences_def fold_addCorner map_nth_0_4)
qed

lemma fold_addTarget:
  assumes "\<forall>target\<in>set targets. length (corners target) = 4"
  shows "fold (addTarget cv aprilTags) targets (obj, img) =
           (obj @ map fst (concat (map (tagCorrespondences cv aprilTags) targets)),
            img @ map snd (concat (map (tagCorrespondences cv aprilTags) targets)))"
  using assms
proof (induction targets arbitrary: obj img)
  case Nil
  then show ?case by simp
next
  case (Cons target targets)
  then show ?case
    by (simp add: addTarget_tagCorrespondences)
qed

text \<open>The two early returns of the strategy.\<close>

lemma MultiTagOnRioStrategy_no_camera_model:
  "camMat = None \<or> distCoeffs = None \<Longrightarrow>
     MultiTagOnRioStrategy cv targets aprilTags camMat distCoeffs = None"
  by (auto simp: MultiTagOnRioStrategy_def)

lemma MultiTagOnRioStrategy_under_four_points:
  "length (snd (collectCorners cv targets aprilTags)) < 4 \<Longrightarrow>
     MultiTagOnRioStrategy cv targets aprilTags camMat distCoeffs = None"
  by (auto simp: MultiTagOnRioStrategy_def split: prod.splits)

subsection \<open>The axis remaps\<close>

text \<open>
  Claim C10.  \<open>ToPoint3d\<close> sends a system-frame translation to the camera frame
  (\<open>camX = -sysY\<close>, \<open>camY = -sysZ\<close>, \<open>camZ = sysX\<close>); the remap \<open>ToPose3d\<close> applies to
  the translation sends a camera-frame vector back.  The two are inverse to each other,
  in both orders, exactly: for every translation \<open>v\<close>, remapping the three coordinates of
  \<open>ToPoint3d v\<close> gives \<open>v\<close>, and for every camera vector \<open>(a, b, c)\<close>, \<open>ToPoint3d\<close> of its
  remap has the coordinates \<open>a\<close>, \<open>b\<close>, \<open>c\<close>.
\<close>

theorem ToPoint3d_remapTranslation_inverse:
  "remapTranslation (p3_x (ToPoint3d v), p3_y (ToPoint3d v), p3_z (ToPoint3d v)) = v
   \<and> ToPoint3d (remapTranslation (a, b, c)) = \<lparr>p3_x = a, p3_y = b, p3_z = c\<rparr>"
  by (simp add: remapTranslation_def ToPoint3d_def)




subsection \<open>Correspondences\<close>

text \<open>
  Claim C4.  For every list of detections with four corners each, the two vectors the
  loops build are, side by side, the concatenation of the detections' contributions in
  list order.  A detection whose id the layout does not know contributes nothing, and
  nothing else happens for it; a detection whose id the layout knows contributes exactly
  four pairs: the layout's corners \<open>(-3in, -3in)\<close>, \<open>(+3in, -3in)\<close>, \<open>(+3in, +3in)\<close>,
  \<open>(-3in, +3in)\<close>, in this order, each with the detection's corner of the same index.
\<close>

theorem collectCorners_correspondences:
  assumes "\<forall>target\<in>set targets. length (corners target) = 4"
  shows "collectCorners cv targets aprilTags =
           (map fst (concat (map (tagCorrespondences cv aprilTags) targets)),
            map snd (concat (map (tagCorrespondences cv aprilTags) targets)))
       \<and> (\<forall>target\<in>set targets.
            case GetTagPose aprilTags (GetFiducialId target) of
              None \<Rightarrow> tagCorrespondences cv aprilTags target = []
            | Some tagPose \<Rightarrow>
                length (tagCorrespondences cv aprilTags target) = 4 \<and>
                tagCorrespondences cv aprilTags target =
                  zip (map (toPoint3f cv)
                         [TagCornerToObjectPoint cv (- three_in) (- three_in) tagPose,
                          TagCornerToObjectPoint cv three_in (- three_in) tagPose,
                          TagCornerToObjectPoint cv three_in three_in tagPose,
                          TagCornerToObjectPoint cv (- three_in) three_in tagPose])
                      (map (toPoint2f cv) (corners target)))"
proof
  show "collectCorners cv targets aprilTags =
           (map fst (concat (map (tagCorrespondences cv aprilTags) targets)),
            map snd (concat (map (tagCorrespondences cv aprilTags) targets)))"
    using fold_addTarget [OF assms, of cv aprilTags "[]" "[]"]
    by (simp add: collectCorners_def)
next
  show "\<forall>target\<in>set targets.
            case GetTagPose aprilTags (GetFiducialId target) of
              None \<Rightarrow> tagCorrespondences cv aprilTags target = []
            | Some tagPose \<Rightarrow>
                length (tagCorrespondences cv aprilTags target) = 4 \<and>
                tagCorrespondences cv aprilTags target =
                  zip (map (toPoint3f cv)
                         [TagCornerToObjectPoint cv (- three_in) (- three_in) tagPose,
                          TagCornerToObjectPoint cv three_in (- three_in) tagPose,
                          TagCornerToObjectPoint cv three_in three_in tagPose,
                          TagCornerToObjectPoint cv (- three_in) three_in tagPose])
                      (map (toPoint2f cv) (corners target))"
    using assms
    by (auto simp: tagCorrespondences_def CalcTagCorners_def split: option.splits)
qed

theorem collectCorners_correspondences_witness:
  "collectCorners cvFailed [seenTag1, seenTag7] layout1 =
     ([\<lparr>p3_x = 381 / 5000, p3_y = 381 / 5000, p3_z = 0\<rparr>,
       \<lparr>p3_x = - (381 / 5000), p3_y = 381 / 5000, p3_z = 0\<rparr>,
       \<lparr>p3_x = - (381 / 5000), p3_y = - (381 / 5000), p3_z = 0\<rparr>,
       \<lparr>p3_x = 381 / 5000, p3_y = - (381 / 5000), p3_z = 0\<rparr>],
      [\<lparr>p2_x = 10, p2_y = 10\<rparr>, \<lparr>p2_x = 20, p2_y = 10\<rparr>, \<lparr>p2_x = 20, p2_y = 20\<rparr>,
       \<lparr>p2_x = 10, p2_y = 20\<rparr>])"
proof -
  have h: "\<forall>target\<in>set [seenTag1, seenTag7]. length (corners target) = 4"
    by (simp add: seenTag1_def seenTag7_def fourCorners_def)
  show ?thesis
    using collectCorners_correspondences [OF h, of cvFailed layout1]
    by (simp add: tagCorrespondences_def solver_defs example_defs cvFailed_def)
qed

subsection \<open>When the strategy returns a pose\<close>

text \<open>
  Claim C2, at the input that breaks it.  One detection of the one tag the layout knows,
  with a camera matrix and distortion coefficients: four correspondences, fewer than the
  two landmarks (eight correspondences) the claim and the source's own comment ask for.
  The test \<^verbatim>\<open>imagePoints.size() < 4\<close> lets it pass and the strategy returns a pose.
\<close>

theorem MultiTagOnRioStrategy_single_tag_returns_pose:
  "length (snd (collectCorners cvSolved [seenTag1] layout1)) = 4
   \<and> MultiTagOnRioStrategy cvSolved [seenTag1] layout1 (Some ()) (Some ()) =
       Some \<lparr>Translation = \<lparr>X = - 3, Y = 1, Z = 2\<rparr>, Rotation = (0, 0, 0)\<rparr>"
  by (simp add: solver_defs pose_defs example_defs cvSolved_def)

text \<open>
  Claim C3, as the specification words it, fails: the strategy has no failure for a
  perspective solve that did not succeed.  With two known tags (eight correspondences),
  a camera model, and a solve that reports failure and leaves zeros, a pose is returned
  all the same, and it is the degenerate all-zero pose.
\<close>

theorem MultiTagOnRioStrategy_failed_solve_counterexample:
  "fst (solvePnP cvFailed
          (fst (collectCorners cvFailed [seenTag1, seenTag2] layout12))
          (snd (collectCorners cvFailed [seenTag1, seenTag2] layout12)) () ()) = False
   \<and> length (snd (collectCorners cvFailed [seenTag1, seenTag2] layout12)) = 8
   \<and> MultiTagOnRioStrategy cvFailed [seenTag1, seenTag2] layout12 (Some ()) (Some ()) =
       Some \<lparr>Translation = \<lparr>X = 0, Y = 0, Z = 0\<rparr>, Rotation = (0, 0, 0)\<rparr>"
  by (simp add: solver_defs pose_defs example_defs layout12_def seenTag2_def cvFailed_def)

text \<open>
  Claim C3, amended.  For every input with a camera matrix, distortion coefficients and
  detections of four corners each that give at least eight correspondences (two known
  landmarks), the strategy returns a pose, and that pose is \<open>ToPose3d\<close> of whatever the
  perspective solve left in \<open>tvec\<close> and \<open>rvec\<close>, whether the solve reported success
  (\<open>ok\<close>) or not: the output of the solve is not checked, and a degenerate one is
  returned as a pose.
\<close>

theorem MultiTagOnRioStrategy_returns_solve_output:
  assumes "camMat = Some cm" and "distCoeffs = Some dc"
    and "\<forall>target\<in>set targets. length (corners target) = 4"
    and "collectCorners cv targets aprilTags = (objectPoints, imagePoints)"
    and "8 \<le> length imagePoints"
    and "solvePnP cv objectPoints imagePoints cm dc = (ok, rvec, tvec)"
  shows "MultiTagOnRioStrategy cv targets aprilTags camMat distCoeffs =
           Some (ToPose3d cv tvec rvec)"
  using assms by (simp add: MultiTagOnRioStrategy_def)

theorem MultiTagOnRioStrategy_returns_solve_output_witness:
  "MultiTagOnRioStrategy cvFailed [seenTag1, seenTag7, seenTag2] layout12 (Some ()) (Some ()) =
     Some \<lparr>Translation = \<lparr>X = 0, Y = 0, Z = 0\<rparr>, Rotation = (0, 0, 0)\<rparr>"
proof -
  have four: "\<forall>target\<in>set [seenTag1, seenTag7, seenTag2]. length (corners target) = 4"
    by (simp add: seenTag1_def seenTag7_def seenTag2_def fourCorners_def)
  have pts: "collectCorners cvFailed [seenTag1, seenTag7, seenTag2] layout12 =
     (fst (collectCorners cvFailed [seenTag1, seenTag7, seenTag2] layout12),
      snd (collectCorners cvFailed [seenTag1, seenTag7, seenTag2] layout12))"
    by simp
  have len: "8 \<le> length (snd (collectCorners cvFailed [seenTag1, seenTag7, seenTag2] layout12))"
    by (simp add: solver_defs example_defs layout12_def seenTag2_def cvFailed_def)
  have pnp: "solvePnP cvFailed
      (fst (collectCorners cvFailed [seenTag1, seenTag7, seenTag2] layout12))
      (snd (collectCorners cvFailed [seenTag1, seenTag7, seenTag2] layout12)) () () =
        (False, (0, 0, 0), (0, 0, 0))"
    by (simp add: cvFailed_def)
  show ?thesis
    using MultiTagOnRioStrategy_returns_solve_output [OF refl refl four pts len pnp]
    by (simp add: pose_defs cvFailed_def)
qed

section \<open>Properties of the time synchronizer\<close>

text \<open>
  \<open>\<not> closer t e r\<close> says that entry \<open>r\<close> is at least as good as \<open>e\<close> for the query \<open>t\<close>:
  strictly nearer, or equally near and not later.
\<close>

lemma not_closer_iff:
  "\<not> closer t e r \<longleftrightarrow>
     \<bar>fst r - t\<bar> < \<bar>fst e - t\<bar> \<or> (\<bar>fst r - t\<bar> = \<bar>fst e - t\<bar> \<and> fst r \<le> fst e)"
  by (auto simp: closer_def)

lemma not_closer_trans:
  "\<not> closer t b r \<Longrightarrow> \<not> closer t e b \<Longrightarrow> \<not> closer t e r"
  by (auto simp: closer_def)

lemma closer_imp_not_closer: "closer t e b \<Longrightarrow> \<not> closer t b e"
  by (auto simp: closer_def)

lemma nearestEntry_mem: "nearestEntry t best es \<in> set (best # es)"
proof (induction es arbitrary: best)
  case Nil
  then show ?case by simp
next
  case (Cons e es)
  have "nearestEntry t (if closer t e best then e else best) es
          \<in> set ((if closer t e best then e else best) # es)"
    by (rule Cons.IH)
  then show ?case by auto
qed

lemma nearestEntry_best: "\<not> closer t best (nearestEntry t best es)"
proof (induction es arbitrary: best)
  case Nil
  then show ?case by (simp add: closer_def)
next
  case (Cons e es)
  show ?case
  proof (cases "closer t e best")
    case True
    have "\<not> closer t e (nearestEntry t e es)"
      by (rule Cons.IH)
    moreover have "\<not> closer t best e"
      using True by (rule closer_imp_not_closer)
    ultimately have "\<not> closer t best (nearestEntry t e es)"
      by (rule not_closer_trans)
    then show ?thesis using True by simp
  next
    case False
    then show ?thesis using Cons.IH [of best] by simp
  qed
qed

lemma nearestEntry_least:
  "x \<in> set (best # es) \<Longrightarrow> \<not> closer t x (nearestEntry t best es)"
proof (induction es arbitrary: best)
  case Nil
  then show ?case by (simp add: closer_def)
next
  case (Cons e es)
  let ?b = "if closer t e best then e else best"
  have res: "nearestEntry t best (e # es) = nearestEntry t ?b es"
    by simp
  have nb: "\<not> closer t ?b (nearestEntry t ?b es)"
    by (rule nearestEntry_best)
  consider "x = best" | "x = e" | "x \<in> set es"
    using Cons.prems by auto
  then show ?case
  proof cases
    case 1
    have "\<not> closer t best ?b"
      by (auto simp: closer_def)
    with nb have "\<not> closer t best (nearestEntry t ?b es)"
      by (rule not_closer_trans)
    then show ?thesis using 1 res by simp
  next
    case 2
    have "\<not> closer t e ?b"
      by (auto simp: closer_def)
    with nb have "\<not> closer t e (nearestEntry t ?b es)"
      by (rule not_closer_trans)
    then show ?thesis using 2 res by simp
  next
    case 3
    then have "x \<in> set (?b # es)" by simp
    then have "\<not> closer t x (nearestEntry t ?b es)"
      by (rule Cons.IH)
    then show ?thesis using res by simp
  qed
qed

text \<open>
  Claim C5.  For every non-empty time map and every keyframe timestamp \<open>t\<close>, the
  synchronizer returns a key \<open>k\<close> of an entry \<open>(ts, k)\<close> of the map such that no entry of
  the map has a timestamp nearer to \<open>t\<close> than \<open>ts\<close>, and every entry as near as \<open>ts\<close> has a
  timestamp not earlier than \<open>ts\<close>.  With states at 10, 20, 35 the query 22 returns the
  state at 20; with states at 10, 20 the query 15 returns the state at 10.
\<close>

theorem GetNearestStateToKeyframe_nearest:
  "(timeMap \<noteq> [] \<longrightarrow>
      (\<exists>ts k. GetNearestStateToKeyframe timeMap t = Inr k
         \<and> (ts, k) \<in> set timeMap
         \<and> (\<forall>e\<in>set timeMap.
              \<bar>ts - t\<bar> \<le> \<bar>fst e - t\<bar> \<and> (\<bar>fst e - t\<bar> = \<bar>ts - t\<bar> \<longrightarrow> ts \<le> fst e))))
   \<and> GetNearestStateToKeyframe [(10, StateKey 0), (20, StateKey 1), (35, StateKey 2)] 22 =
       Inr (StateKey 1)
   \<and> GetNearestStateToKeyframe [(10, StateKey 0), (20, StateKey 1)] 15 = Inr (StateKey 0)"
proof (intro conjI impI)
  assume "timeMap \<noteq> []"
  then obtain e es where m: "timeMap = e # es"
    by (cases timeMap) auto
  define r where "r = nearestEntry t e es"
  have res: "GetNearestStateToKeyframe timeMap t = Inr (snd r)"
    by (simp add: GetNearestStateToKeyframe_def m r_def)
  have mem: "(fst r, snd r) \<in> set timeMap"
    using nearestEntry_mem [of t e es] by (simp add: m r_def)
  have least: "\<forall>x\<in>set timeMap.
      \<bar>fst r - t\<bar> \<le> \<bar>fst x - t\<bar> \<and> (\<bar>fst x - t\<bar> = \<bar>fst r - t\<bar> \<longrightarrow> fst r \<le> fst x)"
  proof
    fix x assume "x \<in> set timeMap"
    then have "\<not> closer t x r"
      unfolding m r_def by (rule nearestEntry_least)
    then show "\<bar>fst r - t\<bar> \<le> \<bar>fst x - t\<bar> \<and> (\<bar>fst x - t\<bar> = \<bar>fst r - t\<bar> \<longrightarrow> fst r \<le> fst x)"
      by (auto simp: not_closer_iff)
  qed
  show "\<exists>ts k. GetNearestStateToKeyframe timeMap t = Inr k
         \<and> (ts, k) \<in> set timeMap
         \<and> (\<forall>e\<in>set timeMap.
              \<bar>ts - t\<bar> \<le> \<bar>fst e - t\<bar> \<and> (\<bar>fst e - t\<bar> = \<bar>ts - t\<bar> \<longrightarrow> ts \<le> fst e))"
    using res mem least by blast
next
  show "GetNearestStateToKeyframe [(10, StateKey 0), (20, StateKey 1), (35, StateKey 2)] 22 =
       Inr (StateKey 1)"
    by (simp add: GetNearestStateToKeyframe_def closer_def)
next
  show "GetNearestStateToKeyframe [(10, StateKey 0), (20, StateKey 1)] 15 = Inr (StateKey 0)"
    by (simp add: GetNearestStateToKeyframe_def closer_def)
qed

theorem GetNearestStateToKeyframe_nearest_witness:
  "[(10, StateKey 0), (20, StateKey 1), (35, StateKey 2)] \<noteq> ([] :: TimeKeyMap)
   \<and> GetNearestStateToKeyframe [(10, StateKey 0), (20, StateKey 1), (35, StateKey 2)] 30 =
       Inr (StateKey 2)
   \<and> (\<exists>ts. (ts, StateKey 2) \<in> set [(10 :: int, StateKey 0), (20, StateKey 1), (35, StateKey 2)]
         \<and> (\<forall>e\<in>set [(10 :: int, StateKey 0), (20, StateKey 1), (35, StateKey 2)].
               \<bar>ts - 30\<bar> \<le> \<bar>fst e - 30\<bar>))"
proof -
  have ne: "[(10, StateKey 0), (20, StateKey 1), (35, StateKey 2)] \<noteq> ([] :: TimeKeyMap)"
    by simp
  have val: "GetNearestStateToKeyframe [(10, StateKey 0), (20, StateKey 1), (35, StateKey 2)] 30 =
       Inr (StateKey 2)"
    by (simp add: GetNearestStateToKeyframe_def closer_def)
  show ?thesis
    using GetNearestStateToKeyframe_nearest
            [of "[(10, StateKey 0), (20, StateKey 1), (35, StateKey 2)]" 30] ne val
    by auto
qed

text \<open>
  Claim C6.  On the empty time map the synchronizer fails with \<open>NoAssociableState\<close>, for
  every keyframe timestamp; it returns no key.
\<close>

theorem GetNearestStateToKeyframe_empty:
  "GetNearestStateToKeyframe [] t = Inl NoAssociableState"
  by (simp add: GetNearestStateToKeyframe_def)

section \<open>Properties of the mapper\<close>

subsection \<open>What the factor builder leaves alone\<close>

lemma builtFrom_addOdometryDelta:
  "builtFrom m acc \<Longrightarrow> builtFrom m (addOdometryDelta env delta acc)"
  by (auto simp: builtFrom_def addOdometryDelta_def Let_def split: prod.splits)

lemma builtFrom_addDetection:
  "builtFrom m acc \<Longrightarrow> builtFrom m (addDetection env kf stateKey det acc)"
  by (auto simp: builtFrom_def addDetection_def Let_def split: prod.splits)

lemma builtFrom_fold:
  assumes base: "builtFrom m acc"
    and step: "\<And>x acc. builtFrom m acc \<Longrightarrow> builtFrom m (f x acc)"
  shows "builtFrom m (fold f xs acc)"
  using base
proof (induction xs arbitrary: acc)
  case Nil
  then show ?case by simp
next
  case (Cons x xs)
  then show ?case by (simp add: step)
qed

lemma builtFrom_addKeyframe:
  assumes "builtFrom m acc"
  shows "builtFrom m (addKeyframe env kf acc)"
proof -
  obtain graph initial m' where acc: "acc = (graph, initial, m')"
    by (cases acc) auto
  show ?thesis
  proof (cases "GetNearestStateToKeyframe (timeToKeyMap m') (keyframe_time kf)")
    case (Inl e)
    then show ?thesis using assms by (simp add: addKeyframe_def acc)
  next
    case (Inr stateKey)
    have "builtFrom m (fold (addDetection env kf stateKey) (observation kf) acc)"
      using assms by (rule builtFrom_fold) (rule builtFrom_addDetection)
    then show ?thesis
      using Inr by (auto simp: addKeyframe_def acc builtFrom_def split: prod.splits)
  qed
qed

lemma builtFrom_builder:
  "builtFrom m (AddKeyframes env newThings (AddOdometryFactors env newThings ([], Map.empty, m)))"
proof -
  have "builtFrom m ([], Map.empty, m)"
    by (simp add: builtFrom_def)
  then have "builtFrom m (AddOdometryFactors env newThings ([], Map.empty, m))"
    unfolding AddOdometryFactors_def by (rule builtFrom_fold) (rule builtFrom_addOdometryDelta)
  then show ?thesis
    unfolding AddKeyframes_def by (rule builtFrom_fold) (rule builtFrom_addKeyframe)
qed

lemma grownFrom_refl: "grownFrom m m"
  by (simp add: grownFrom_def)

lemma grownFrom_trans: "grownFrom a b \<Longrightarrow> grownFrom b c \<Longrightarrow> grownFrom a c"
  by (auto simp: grownFrom_def)

lemma grownFrom_Optimize: "grownFrom m (snd (Optimize env m newThings))"
proof -
  obtain graph initial m' where
    b: "AddKeyframes env newThings (AddOdometryFactors env newThings ([], Map.empty, m)) =
          (graph, initial, m')"
    by (cases "AddKeyframes env newThings (AddOdometryFactors env newThings ([], Map.empty, m))") auto
  have "builtFrom m (graph, initial, m')"
    using builtFrom_builder [of m env newThings] by (simp add: b)
  then have tm: "\<exists>new. timeToKeyMap m' = timeToKeyMap m @ new"
    by (simp add: builtFrom_def)
  show ?thesis
  proof (cases "timeToKeyMap m' = []")
    case True
    then show ?thesis by (simp add: Optimize_def b grownFrom_refl)
  next
    case False
    show ?thesis
    proof (cases "solver env (isam m) graph initial (currentEstimate m)")
      case None
      then show ?thesis using False by (simp add: Optimize_def b grownFrom_refl)
    next
      case (Some best)
      then show ?thesis
        using False tm by (auto simp: Optimize_def b grownFrom_def Let_def)
    qed
  qed
qed

lemma grownFrom_OptimizeAll: "grownFrom m (OptimizeAll env m batches)"
proof (induction batches arbitrary: m)
  case Nil
  then show ?case by (simp add: OptimizeAll_def grownFrom_refl)
next
  case (Cons newThings batches)
  have "grownFrom m (snd (Optimize env m newThings))"
    by (rule grownFrom_Optimize)
  moreover have "grownFrom (snd (Optimize env m newThings))
                   (OptimizeAll env (snd (Optimize env m newThings)) batches)"
    by (rule Cons.IH)
  ultimately have "grownFrom m (OptimizeAll env (snd (Optimize env m newThings)) batches)"
    by (rule grownFrom_trans)
  then show ?case by (simp add: OptimizeAll_def)
qed

lemmas mapper_defs =
  Optimize_def AddKeyframes_def AddOdometryFactors_def addKeyframe_def addDetection_def
  addOdometryDelta_def GetNearestStateToKeyframe_def closer_def Let_def
  lineEnv_def emptyMapper_def firstBatch_def seenTag1_def seenTag7_def fourCorners_def

text \<open>
  Claim C9.  For every mapper, every batch and every sequence of batches: the set of
  keys that have a value after an \<open>Optimize\<close> call contains the set before it, and the
  factors and the time map after the call are those before it with new ones appended.
  The same holds from the start of a session to any later point of it, and for a further
  call made at that point.
\<close>

theorem Optimize_keys_never_shrink:
  "dom (currentEstimate m) \<subseteq> dom (currentEstimate (snd (Optimize env m newThings)))
   \<and> (\<exists>new. isam (snd (Optimize env m newThings)) = isam m @ new)
   \<and> (\<exists>new. timeToKeyMap (snd (Optimize env m newThings)) = timeToKeyMap m @ new)
   \<and> dom (currentEstimate m) \<subseteq> dom (currentEstimate (OptimizeAll env m batches))
   \<and> (\<exists>new. isam (OptimizeAll env m batches) = isam m @ new)
   \<and> (\<exists>new. timeToKeyMap (OptimizeAll env m batches) = timeToKeyMap m @ new)
   \<and> dom (currentEstimate (OptimizeAll env m batches)) \<subseteq>
       dom (currentEstimate (snd (Optimize env (OptimizeAll env m batches) newThings)))"
  using grownFrom_Optimize [of m env newThings] grownFrom_OptimizeAll [of m env batches]
    grownFrom_Optimize [of "OptimizeAll env m batches" env newThings]
  by (simp add: grownFrom_def)

theorem Optimize_keys_never_shrink_witness:
  "dom (currentEstimate emptyMapper) = {}
   \<and> dom (currentEstimate (snd (Optimize lineEnv emptyMapper firstBatch))) =
       {StateKey 0, LandmarkKey 1, LandmarkKey 7}
   \<and> dom (currentEstimate (OptimizeAll lineEnv emptyMapper [firstBatch])) =
       {StateKey 0, LandmarkKey 1, LandmarkKey 7}"
proof -
  have a: "dom (currentEstimate emptyMapper) = {}"
    by (simp add: emptyMapper_def)
  have b: "dom (currentEstimate (snd (Optimize lineEnv emptyMapper firstBatch))) =
       {StateKey 0, LandmarkKey 1, LandmarkKey 7}"
    by (auto simp: mapper_defs split: if_splits)
  show ?thesis
    using Optimize_keys_never_shrink [of emptyMapper lineEnv firstBatch "[firstBatch]"] a b
    by (simp add: OptimizeAll_def)
qed

end
